theory Spec2Isabelle
  imports Complex_Main
begin

unbundle bit_operations_syntax

section \<open>Python primitives used by the simulators\<close>

text \<open>
  Python integers are unbounded and are modelled as \<open>int\<close>; the shifts and masks of the
  source are the two's-complement operations \<open>drop_bit\<close>, \<open>push_bit\<close>, \<open>AND\<close>, \<open>OR\<close>
  on \<open>int\<close>. Python floats are modelled as \<open>real\<close>: rounding error, infinities and NaN
  are outside the model. \<open>int(x)\<close> on a float truncates towards zero.
\<close>

definition python_int :: "real \<Rightarrow> int" where
  "python_int x = (if 0 \<le> x then \<lfloor>x\<rfloor> else \<lceil>x\<rceil>)"

text \<open>
  \<open>struct.pack('>H', v)\<close> and \<open>struct.pack('>I', v)\<close>: big-endian unsigned 16 and 32 bit;
  \<open>struct.error\<close> (here \<open>None\<close>) when the value does not fit.
\<close>

definition pack_H :: "int \<Rightarrow> int list option" where
  "pack_H v = (if 0 \<le> v \<and> v \<le> 65535 then Some [v div 256, v mod 256] else None)"

definition pack_I :: "int \<Rightarrow> int list option" where
  "pack_I v =
     (if 0 \<le> v \<and> v \<le> 4294967295
      then Some [v div 16777216, v div 65536 mod 256, v div 256 mod 256, v mod 256]
      else None)"

text \<open>
  \<open>int(s, 16)\<close> on an ASCII string, after CPython's \<open>PyLong_FromString\<close>: leading
  white space, an optional sign, an optional \<open>0x\<close>/\<open>0X\<close> prefix (one underscore may follow
  it), hexadecimal digits with single underscores between them, trailing white space.
  \<open>ValueError\<close> is \<open>None\<close>.
\<close>

definition py_isspace :: "char \<Rightarrow> bool" where
  "py_isspace c = ((of_char c :: nat) = 32 \<or> (9 \<le> (of_char c :: nat) \<and> (of_char c :: nat) \<le> 13))"

definition digit_value :: "char \<Rightarrow> int option" where
  "digit_value c =
     (let n = (of_char c :: nat) in
      if 48 \<le> n \<and> n \<le> 57 then Some (int n - 48)
      else if 97 \<le> n \<and> n \<le> 102 then Some (int n - 87)
      else if 65 \<le> n \<and> n \<le> 70 then Some (int n - 55)
      else None)"

definition is_hex :: "char \<Rightarrow> bool" where
  "is_hex c = (digit_value c \<noteq> None)"

definition strip_sign :: "string \<Rightarrow> bool \<times> string" where
  "strip_sign s =
     (case s of
        [] \<Rightarrow> (False, [])
      | c # r \<Rightarrow> if c = CHR ''+'' then (False, r)
                else if c = CHR ''-'' then (True, r)
                else (False, s))"

definition strip_prefix16 :: "string \<Rightarrow> string" where
  "strip_prefix16 s =
     (case s of
        c # x # r \<Rightarrow>
          if c = CHR ''0'' \<and> (x = CHR ''x'' \<or> x = CHR ''X'')
          then (case r of [] \<Rightarrow> r | u # r' \<Rightarrow> if u = CHR ''_'' then r' else r)
          else s
      | _ \<Rightarrow> s)"

fun bad_underscores :: "string \<Rightarrow> bool" where
  "bad_underscores [] = False"
| "bad_underscores [c] = (c = CHR ''_'')"
| "bad_underscores (c # d # r) =
     ((c = CHR ''_'' \<and> d = CHR ''_'') \<or> bad_underscores (d # r))"

definition hex_value :: "string \<Rightarrow> int" where
  "hex_value ds = foldl (\<lambda>a c. 16 * a + (case digit_value c of Some v \<Rightarrow> v | None \<Rightarrow> 0)) 0 ds"

definition py_int16 :: "string \<Rightarrow> int option" where
  "py_int16 s =
     (let (neg, s2) = strip_sign (dropWhile py_isspace s);
          s3 = strip_prefix16 s2;
          body = takeWhile (\<lambda>c. is_hex c \<or> c = CHR ''_'') s3;
          rest = dropWhile (\<lambda>c. is_hex c \<or> c = CHR ''_'') s3
      in if take 1 s3 = ''_'' then None
         else if bad_underscores body then None
         else if body = [] then None
         else if dropWhile py_isspace rest \<noteq> [] then None
         else let v = hex_value (filter (\<lambda>c. c \<noteq> CHR ''_'') body)
              in Some (if neg then - v else v))"

text \<open>\<open>str.upper()\<close> on one ASCII character.\<close>

definition py_upper :: "char \<Rightarrow> char" where
  "py_upper c =
     (if 97 \<le> (of_char c :: nat) \<and> (of_char c :: nat) \<le> 122
      then char_of ((of_char c :: nat) - 32) else c)"


section \<open>can\_simulator.py: the OBD codec\<close>

subsection \<open>\<open>_encode_dtc\<close>\<close>

definition encode_dtc :: "string \<Rightarrow> int list" where
  "encode_dtc dtc_code =
     (if length dtc_code \<noteq> 5 then [0x00, 0x00]
      else
        let first_char = py_upper (hd dtc_code);
            number_part = tl dtc_code;
            first_byte =
              (if first_char = CHR ''P'' then 0x00
               else if first_char = CHR ''C'' then 0x40
               else if first_char = CHR ''B'' then 0x80
               else if first_char = CHR ''U'' then 0xC0
               else (0x00 :: int))
        in case py_int16 number_part of
             None \<Rightarrow> [0x00, 0x00]
           | Some number \<Rightarrow>
               [first_byte OR (drop_bit 8 number AND 0x3F), number AND 0xFF])"

text \<open>
  The specification's table for the first character of a code, \<open>P\<close> 00, \<open>C\<close> 01, \<open>B\<close> 10,
  \<open>U\<close> 11, as the value of the two high bits; it is compared with \<open>encode_dtc\<close> below.
\<close>

definition spec_letter_bits :: "char \<Rightarrow> int" where
  "spec_letter_bits c =
     (if c = CHR ''P'' then 0 else if c = CHR ''C'' then 1
      else if c = CHR ''B'' then 2 else 3)"

definition hex_digit :: "char \<Rightarrow> int" where
  "hex_digit c = (case digit_value c of Some v \<Rightarrow> v | None \<Rightarrow> 0)"

subsection \<open>\<open>_initialize_supported_pids\<close> and \<open>_get_supported_pids_mask\<close>\<close>

text \<open>The table is a dict from window base to PID list; \<open>.get(pid_range, [])\<close> is the lookup.\<close>

definition supported_pids :: "int \<Rightarrow> int list" where
  "supported_pids pid_range =
     (if pid_range = 0x00 then
        [0x01, 0x04, 0x05, 0x06, 0x07, 0x0A, 0x0B, 0x0C, 0x0D, 0x0E, 0x0F,
         0x10, 0x11, 0x13, 0x14, 0x15, 0x1F]
      else if pid_range = 0x20 then [0x21, 0x22, 0x2F, 0x33]
      else if pid_range = 0x40 then [0x42, 0x43, 0x46, 0x4D, 0x4E]
      else [])"

definition mask_step :: "int \<Rightarrow> int \<Rightarrow> int \<Rightarrow> int" where
  "mask_step pid_range m pid =
     (let bit_position = pid - (pid_range + 1)
      in if 0 \<le> bit_position \<and> bit_position < 32
         then m OR push_bit (nat (31 - bit_position)) 1
         else m)"

definition get_supported_pids_mask :: "int \<Rightarrow> int" where
  "get_supported_pids_mask pid_range = foldl (mask_step pid_range) 0 (supported_pids pid_range)"


section \<open>can\_simulator.py: data model\<close>

text \<open>
  A CAN frame as the handlers use it: the arbitration id and the data bytes.
  \<open>can.Message(arbitration_id, data)\<close> stores the data as a \<open>bytearray\<close>, which raises
  \<open>ValueError\<close> (here \<open>None\<close>) when an element is not in \<open>range(256)\<close>.
\<close>

record can_message =
  arbitration_id :: int
  data :: "int list"

definition can_Message :: "int \<Rightarrow> int list \<Rightarrow> can_message option" where
  "can_Message aid d =
     (if list_all (\<lambda>b. 0 \<le> b \<and> b \<le> 255) d
      then Some \<lparr>arbitration_id = aid, data = d\<rparr> else None)"

record engine_state =
  rpm :: real
  coolant_temp :: real
  oil_temp :: real
  intake_air_temp :: real
  engine_load :: real
  throttle_position :: real
  maf_flow :: real
  fuel_pressure :: real
  timing_advance :: real
  is_running :: bool
  runtime_since_start :: int

record vehicle_state =
  speed :: real
  odometer :: real
  fuel_level :: real
  battery_voltage :: real
  ambient_temperature :: real
  barometric_pressure :: real
  gear :: int
  speed_limit :: int
  mil_status :: bool
  dtc_count :: int
  fuel_system_status :: int
  o2_sensor1_voltage :: real
  o2_sensor2_voltage :: real
  short_fuel_trim_bank1 :: real
  long_fuel_trim_bank1 :: real

text \<open>
  \<open>DiagnosticTroubleCode\<close>. The two time stamps are never read by the simulator and are
  left out; the descriptions (Russian in the source) are given in English.
\<close>

record diagnostic_trouble_code =
  code :: string
  description :: string
  status :: string
  occurrence_count :: int

text \<open>The fields of \<open>CANBusSimulator\<close> that the request handlers and the DTC logic use.\<close>

record simulator =
  engine :: engine_state
  vehicle :: vehicle_state
  dtc_codes :: "diagnostic_trouble_code list"

definition initial_engine :: engine_state where
  "initial_engine =
     \<lparr>rpm = 800, coolant_temp = 90, oil_temp = 85, intake_air_temp = 25, engine_load = 0,
      throttle_position = 0, maf_flow = 35 / 10, fuel_pressure = 35 / 10, timing_advance = 15,
      is_running = True, runtime_since_start = 0\<rparr>"

definition initial_vehicle :: vehicle_state where
  "initial_vehicle =
     \<lparr>speed = 0, odometer = 1258475 / 10, fuel_level = 75, battery_voltage = 126 / 10,
      ambient_temperature = 20, barometric_pressure = 1013 / 10, gear = 0, speed_limit = 60,
      mil_status = False, dtc_count = 0, fuel_system_status = 0x02,
      o2_sensor1_voltage = 45 / 100, o2_sensor2_voltage = 47 / 100,
      short_fuel_trim_bank1 = 0, long_fuel_trim_bank1 = 0\<rparr>"

definition initial_simulator :: simulator where
  "initial_simulator = \<lparr>engine = initial_engine, vehicle = initial_vehicle, dtc_codes = []\<rparr>"


section \<open>can\_simulator.py: sending responses\<close>

text \<open>
  Both senders return the list of frames handed to \<open>bus.send\<close> (the bus is open while the
  listener runs). An exception while the frame is built is caught and logged by the
  sender, and nothing is transmitted.
\<close>

definition send_obd_response :: "int \<Rightarrow> int list \<Rightarrow> can_message list" where
  "send_obd_response request_id response_data =
     (let response_id = (if request_id = 0x7DF then 0x7E8 else request_id + 8);
          full_response = int (length response_data) # response_data;
          full_response = (if length full_response > 8 then take 8 full_response
                           else full_response);
          full_response = full_response @ replicate (8 - length full_response) 0x00
      in case can_Message response_id full_response of
           None \<Rightarrow> []
         | Some message \<Rightarrow> [message])"

definition send_negative_response :: "int \<Rightarrow> int \<Rightarrow> int option \<Rightarrow> can_message list" where
  "send_negative_response request_id mode pid =
     (let response_id = request_id + 8;
          negative_response = [0x7F, mode, 0x12];
          negative_response = (case pid of None \<Rightarrow> negative_response
                               | Some p \<Rightarrow> negative_response @ [p]);
          negative_response = negative_response @ replicate (8 - length negative_response) 0x00
      in case can_Message response_id negative_response of
           None \<Rightarrow> []
         | Some message \<Rightarrow> [message])"


section \<open>can\_simulator.py: request handlers\<close>

subsection \<open>\<open>_handle_current_data_request\<close> (mode 0x01)\<close>

text \<open>
  The bytes a PID appends to \<open>[0x41, pid]\<close>: \<open>Encoded\<close>, the \<open>else\<close> branch
  (\<open>Unsupported\<close>), or an exception inside the \<open>try\<close> block (\<open>Raised\<close>, from
  \<open>struct.pack\<close>).
\<close>

datatype pid_encoding = Encoded "int list" | Unsupported | Raised

definition packed :: "int list option \<Rightarrow> pid_encoding" where
  "packed r = (case r of None \<Rightarrow> Raised | Some bs \<Rightarrow> Encoded bs)"

definition current_data_bytes :: "simulator \<Rightarrow> int \<Rightarrow> pid_encoding" where
  "current_data_bytes st requested_pid =
     (if requested_pid = 0x00 then packed (pack_I (get_supported_pids_mask 0x00))
      else if requested_pid = 0x0C then packed (pack_H (python_int (rpm (engine st) * 4)))
      else if requested_pid = 0x0D then Encoded [python_int (speed (vehicle st))]
      else if requested_pid = 0x05 then
        Encoded [max 0 (min 255 (python_int (coolant_temp (engine st) + 40)))]
      else if requested_pid = 0x04 then
        Encoded [max 0 (min 255 (python_int (engine_load (engine st) * 255 / 100)))]
      else if requested_pid = 0x11 then
        Encoded [max 0 (min 255 (python_int (throttle_position (engine st) * 255 / 100)))]
      else if requested_pid = 0x0F then
        Encoded [max 0 (min 255 (python_int (intake_air_temp (engine st) + 40)))]
      else if requested_pid = 0x10 then
        packed (pack_H (max 0 (min 65535 (python_int (maf_flow (engine st) * 100)))))
      else if requested_pid = 0x2F then
        Encoded [max 0 (min 255 (python_int (fuel_level (vehicle st) * 255 / 100)))]
      else if requested_pid = 0x42 then
        packed (pack_H (max 0 (min 65535 (python_int (battery_voltage (vehicle st) * 1000)))))
      else if requested_pid = 0x46 then
        Encoded [max 0 (min 255 (python_int (ambient_temperature (vehicle st) + 40)))]
      else if requested_pid = 0x0A then
        Encoded [max 0 (min 255 (python_int (fuel_pressure (engine st) * 100 / 3)))]
      else if requested_pid = 0x0E then
        Encoded [max 0 (min 255 (python_int ((timing_advance (engine st) + 64) * 2)))]
      else if requested_pid = 0x14 then
        Encoded [max 0 (min 255 (python_int (o2_sensor1_voltage (vehicle st) * 200))), 0xFF]
      else if requested_pid = 0x06 then
        Encoded [max 0 (min 255
                   (python_int ((short_fuel_trim_bank1 (vehicle st) * 128 / 100) + 128)))]
      else if requested_pid = 0x07 then
        Encoded [max 0 (min 255
                   (python_int ((long_fuel_trim_bank1 (vehicle st) * 128 / 100) + 128)))]
      else if requested_pid = 0x1F then
        packed (pack_H (min 65535 (runtime_since_start (engine st))))
      else if requested_pid = 0x33 then
        Encoded [max 0 (min 255 (python_int (barometric_pressure (vehicle st))))]
      else if requested_pid = 0xA5 then Encoded [gear (vehicle st)]
      else if requested_pid = 0xA8 then Encoded [speed_limit (vehicle st)]
      else Unsupported)"

definition handle_current_data_request :: "simulator \<Rightarrow> can_message \<Rightarrow> can_message list" where
  "handle_current_data_request st request =
     (if length (data request) < 3 then []
      else
        let requested_pid = data request ! 2;
            response_data = [0x41, requested_pid]
        in case current_data_bytes st requested_pid of
             Unsupported \<Rightarrow>
               send_negative_response (arbitration_id request) 0x01 (Some requested_pid)
           | Raised \<Rightarrow>
               send_negative_response (arbitration_id request) 0x01 (Some requested_pid)
           | Encoded bs \<Rightarrow>
               send_obd_response (arbitration_id request) (response_data @ bs))"



subsection \<open>\<open>_handle_diagnostic_codes_request\<close> (mode 0x03)\<close>

text \<open>The loop over \<open>self.dtc_codes[:3]\<close>, extending \<open>response_data\<close>.\<close>

fun extend_confirmed :: "int list \<Rightarrow> diagnostic_trouble_code list \<Rightarrow> int list" where
  "extend_confirmed response_data [] = response_data"
| "extend_confirmed response_data (dtc # rest) =
     extend_confirmed
       (if status dtc = ''confirmed'' then response_data @ encode_dtc (code dtc)
        else response_data)
       rest"

definition diagnostic_codes_response_data :: "simulator \<Rightarrow> int list" where
  "diagnostic_codes_response_data st =
     (let response_data = [0x43];
          dtc_count = int (length (filter (\<lambda>dtc. status dtc = ''confirmed'') (dtc_codes st)));
          response_data = response_data @ [dtc_count]
      in extend_confirmed response_data (take 3 (dtc_codes st)))"

definition handle_diagnostic_codes_request ::
  "simulator \<Rightarrow> can_message \<Rightarrow> can_message list" where
  "handle_diagnostic_codes_request st request =
     send_obd_response (arbitration_id request) (diagnostic_codes_response_data st)"

subsection \<open>\<open>_handle_clear_codes_request\<close> (mode 0x04)\<close>

definition handle_clear_codes_request ::
  "simulator \<Rightarrow> can_message \<Rightarrow> simulator \<times> can_message list" where
  "handle_clear_codes_request st request =
     (st\<lparr>dtc_codes := [], vehicle := (vehicle st)\<lparr>mil_status := False, dtc_count := 0\<rparr>\<rparr>,
      send_obd_response (arbitration_id request) [0x44])"

subsection \<open>\<open>_handle_vehicle_info_request\<close> (mode 0x09)\<close>

definition vin :: string where
  "vin = ''1HGBH41JXMN109186''"

definition cal_id :: string where
  "cal_id = ''CAL001234567890''"

text \<open>
  The payload the handler builds for a value of its local \<open>info_type\<close>; \<open>None\<close> is the
  \<open>else\<close> branch, which answers negatively.
\<close>

definition vehicle_info_response_data :: "int \<Rightarrow> int list option" where
  "vehicle_info_response_data info_type =
     (if info_type = 0x02 then Some ([0x49, info_type] @ [1] @ map of_char vin)
      else if info_type = 0x04 then Some ([0x49, info_type] @ [1] @ map of_char (take 16 cal_id))
      else None)"

text \<open>The handler reads \<open>info_type\<close> from \<open>request.data[1]\<close>.\<close>

definition handle_vehicle_info_request :: "can_message \<Rightarrow> can_message list" where
  "handle_vehicle_info_request request =
     (if length (data request) < 2 then []
      else
        let info_type = data request ! 1
        in case vehicle_info_response_data info_type of
             None \<Rightarrow> send_negative_response (arbitration_id request) 0x09 (Some info_type)
           | Some response_data \<Rightarrow> send_obd_response (arbitration_id request) response_data)"

subsection \<open>\<open>_process_can_message\<close>\<close>

definition process_can_message ::
  "simulator \<Rightarrow> can_message \<Rightarrow> simulator \<times> can_message list" where
  "process_can_message st message =
     (if \<not> (arbitration_id message = 0x7DF
             \<or> (0x7E0 \<le> arbitration_id message \<and> arbitration_id message \<le> 0x7E7))
      then (st, [])
      else if length (data message) < 3 then (st, [])
      else
        let mode = data message ! 1
        in if mode = 0x01 then (st, handle_current_data_request st message)
           else if mode = 0x03 then (st, handle_diagnostic_codes_request st message)
           else if mode = 0x04 then handle_clear_codes_request st message
           else if mode = 0x09 then (st, handle_vehicle_info_request message)
           else (st, send_negative_response (arbitration_id message) mode None))"


section \<open>can\_simulator.py: the stored trouble codes\<close>

subsection \<open>\<open>_initialize_demo_dtcs\<close>\<close>




subsection \<open>\<open>_add_random_dtc\<close>\<close>



subsection \<open>Reachable simulator states\<close>





section \<open>physics\_obd\_sim.py\<close>

subsection \<open>\<open>PhysicsState\<close>\<close>

text \<open>The fields carry the prefix \<open>p_\<close> to keep them apart from those of the first simulator.\<close>

record physics_state =
  p_speed :: real
  p_acceleration :: real
  p_rpm :: real
  p_throttle :: real
  p_brake :: real
  p_gear :: int
  p_engine_temp :: real
  p_fuel_level :: real
  p_odometer :: real
  p_mass :: real
  p_drag_coefficient :: real
  p_frontal_area :: real
  p_max_power :: real
  p_max_torque :: real

definition initial_physics_state :: physics_state where
  "initial_physics_state =
     \<lparr>p_speed = 0, p_acceleration = 0, p_rpm = 800, p_throttle = 0, p_brake = 0, p_gear = 1,
      p_engine_temp = 20, p_fuel_level = 75, p_odometer = 123456 / 10, p_mass = 1500,
      p_drag_coefficient = 3 / 10, p_frontal_area = 22 / 10, p_max_power = 150,
      p_max_torque = 350\<rparr>"

subsection \<open>\<open>_update_rpm\<close>, \<open>_update_gear\<close>, \<open>_update_physics\<close>\<close>

definition gear_ratio :: "int \<Rightarrow> real" where
  "gear_ratio g =
     (if g = 1 then 35 / 10 else if g = 2 then 21 / 10 else if g = 3 then 14 / 10
      else if g = 4 then 1 else if g = 5 then 8 / 10 else if g = 6 then 65 / 100 else 1)"

definition target_rpm :: "physics_state \<Rightarrow> real" where
  "target_rpm st =
     (if p_speed st < 1 / 10 then 800 + p_throttle st * 20
      else
        let ratio = gear_ratio (p_gear st);
            wheel_rpm = (p_speed st * 1000 / 60) / (65 / 100 * pi);
            t = wheel_rpm * ratio * (41 / 10);
            t = t + p_throttle st * 10
        in max 800 (min 6500 t))"

text \<open>\<open>dt\<close> is the measured tick length and \<open>now\<close> the value of \<open>time.time()\<close>.\<close>

definition update_rpm :: "real \<Rightarrow> real \<Rightarrow> physics_state \<Rightarrow> physics_state" where
  "update_rpm dt now st =
     (let rpm_diff = target_rpm st - p_rpm st;
          st = st\<lparr>p_rpm := p_rpm st + rpm_diff * dt * 3\<rparr>
      in st\<lparr>p_rpm := p_rpm st + sin (now * 10) * 5\<rparr>)"

definition update_gear :: "physics_state \<Rightarrow> physics_state" where
  "update_gear st =
     (let speed = p_speed st
      in if speed < 20 then st\<lparr>p_gear := 1\<rparr>
         else if speed < 40 then st\<lparr>p_gear := 2\<rparr>
         else if speed < 60 then st\<lparr>p_gear := 3\<rparr>
         else if speed < 80 then st\<lparr>p_gear := 4\<rparr>
         else if speed < 100 then st\<lparr>p_gear := 5\<rparr>
         else st\<lparr>p_gear := 6\<rparr>)"

text \<open>
  The forces computed at the start of \<open>_update_physics\<close>: the local \<open>engine_force\<close>, and
  \<open>total_force\<close> from it, the brake, the air resistance and the rolling resistance.
\<close>

definition engine_force :: "physics_state \<Rightarrow> real" where
  "engine_force st =
     (let speed_ms = p_speed st / (36 / 10)
      in if p_throttle st > 0 then
           let rpm_normalized = p_rpm st / 6000;
               power_factor = rpm_normalized * (2 - rpm_normalized);
               f = (p_max_power st * 1000 * power_factor * p_throttle st / 100)
                     / max speed_ms 1
           in min f (p_max_torque st * 10)
         else 0)"

definition total_force :: "physics_state \<Rightarrow> real" where
  "total_force st =
     (let speed_ms = p_speed st / (36 / 10);
          brake_force = p_brake st * 150;
          air_resistance = (1 / 2) * (1225 / 1000) * p_drag_coefficient st
                             * p_frontal_area st * speed_ms * speed_ms;
          rolling_resistance = (15 / 1000) * p_mass st * (981 / 100)
      in engine_force st - brake_force - air_resistance - rolling_resistance)"

definition update_physics :: "real \<Rightarrow> real \<Rightarrow> physics_state \<Rightarrow> physics_state" where
  "update_physics dt now st =
     (let speed_ms = p_speed st / (36 / 10);
          st = st\<lparr>p_acceleration := total_force st / p_mass st\<rparr>;
          speed_ms = speed_ms + p_acceleration st * dt;
          speed_ms = max 0 speed_ms;
          st = st\<lparr>p_speed := speed_ms * (36 / 10)\<rparr>;
          st = (if p_speed st > 0
                then st\<lparr>p_odometer := p_odometer st + (p_speed st / 3600) * dt\<rparr>
                else st);
          st = update_rpm dt now st
      in update_gear st)"

subsection \<open>\<open>_get_obd2_response\<close>, \<open>_send_obd2_response\<close>, \<open>_process_can_message\<close>\<close>

definition get_obd2_response :: "physics_state \<Rightarrow> int \<Rightarrow> int list option" where
  "get_obd2_response st pid =
     (if pid = 0x0C then
        let rpm_value = python_int (p_rpm st * 4)
        in Some [drop_bit 8 rpm_value AND 0xFF, rpm_value AND 0xFF]
      else if pid = 0x0D then Some [python_int (p_speed st)]
      else if pid = 0x05 then Some [python_int (p_engine_temp st + 40)]
      else if pid = 0x11 then Some [python_int (p_throttle st * (255 / 100))]
      else if pid = 0x04 then
        let load = p_throttle st * (7 / 10) + (p_rpm st / 6000) * 30
        in Some [python_int (load * (255 / 100))]
      else if pid = 0x2F then Some [python_int (p_fuel_level st * (255 / 100))]
      else if pid = 0x31 then
        let odometer_value = python_int (p_odometer st * 10)
        in Some [drop_bit 8 odometer_value AND 0xFF, odometer_value AND 0xFF]
      else None)"

text \<open>
  The frame is built outside the \<open>try\<close> block: a \<open>ValueError\<close> from \<open>can.Message\<close> leaves
  the function, is logged by \<open>_can_loop\<close>, and nothing is transmitted.
\<close>

definition send_obd2_response :: "int \<Rightarrow> int list \<Rightarrow> can_message list" where
  "send_obd2_response pid d =
     (let response_data = [int (length d) + 2, 0x41, pid] @ d;
          response_data = response_data @ replicate (8 - length response_data) 0
      in case can_Message 0x7E8 (take 8 response_data) of
           None \<Rightarrow> []
         | Some message \<Rightarrow> [message])"

definition physics_process_can_message :: "physics_state \<Rightarrow> can_message \<Rightarrow> can_message list" where
  "physics_process_can_message st message =
     (if \<not> (arbitration_id message = 0x7DF
             \<or> (0x7E0 \<le> arbitration_id message \<and> arbitration_id message \<le> 0x7E7))
      then []
      else if length (data message) < 3 then []
      else
        let len = data message ! 0;
            mode = data message ! 1
        in if mode = 0x01 \<and> len \<ge> 2 then
             let pid = data message ! 2
             in case get_obd2_response st pid of
                  None \<Rightarrow> []
                | Some response \<Rightarrow> if response = [] then [] else send_obd2_response pid response
           else [])"


section \<open>Auxiliary facts\<close>

subsection \<open>Bytes of the trouble code encoder\<close>

lemma hex_digit_range: "is_hex c \<Longrightarrow> 0 \<le> hex_digit c \<and> hex_digit c < 16"
  by (auto simp: is_hex_def hex_digit_def digit_value_def Let_def split: if_splits)

lemma is_hex_not_special:
  assumes "is_hex c"
  shows "\<not> py_isspace c" "c \<noteq> CHR ''+''" "c \<noteq> CHR ''-''" "c \<noteq> CHR ''_''"
    "c \<noteq> CHR ''x''" "c \<noteq> CHR ''X''"
  using assms
  by (auto simp: is_hex_def digit_value_def py_isspace_def Let_def split: if_splits)

lemma py_int16_hex4:
  assumes "is_hex a" "is_hex b" "is_hex c" "is_hex d"
  shows "py_int16 [a, b, c, d]
           = Some (hex_digit a * 4096 + hex_digit b * 256 + hex_digit c * 16 + hex_digit d)"
  using assms is_hex_not_special[OF assms(1)] is_hex_not_special[OF assms(2)]
    is_hex_not_special[OF assms(3)] is_hex_not_special[OF assms(4)]
  by (simp add: py_int16_def strip_sign_def strip_prefix16_def hex_value_def hex_digit_def Let_def)

lemma and_255: "(k::int) AND 0xFF = k mod 256"
  using take_bit_eq_mask[of 8 k] by (simp add: take_bit_eq_mod mask_eq_exp_minus_1)

lemma and_63: "(k::int) AND 0x3F = k mod 64"
  using take_bit_eq_mask[of 6 k] by (simp add: take_bit_eq_mod mask_eq_exp_minus_1)

lemma drop_bit_8: "drop_bit 8 (k::int) = k div 256"
  by (simp add: drop_bit_eq_div)

lemma or_disjoint:
  assumes "0 \<le> x" "x < 64" "0 \<le> q" 
  shows "(q * 64) OR x = q * 64 + (x::int)"
proof -
  have "(q * 64) AND x = 0"
  proof (rule bit_eqI)
    fix n
    have "x = take_bit 6 x" using assms by (simp add: take_bit_eq_mod)
    then have bx: "bit x n \<Longrightarrow> n < 6" by (metis bit_take_bit_iff)
    have "q * 64 = push_bit 6 q" by (simp add: push_bit_eq_mult)
    then have bq: "bit (q * 64) n \<Longrightarrow> 6 \<le> n" by (simp add: bit_push_bit_iff)
    show "bit (q * 64 AND x) n = bit (0::int) n"
      using bx bq by (auto simp: bit_and_iff)
  qed
  then show ?thesis by (simp add: disjunctive_add_eq_or)
qed


lemma first_byte_or:
  assumes "0 \<le> x" "x < 64"
  shows "(0::int) OR x = x" "(0x40::int) OR x = 64 + x" "(0x80::int) OR x = 128 + x"
    "(0xC0::int) OR x = 192 + x"
  using or_disjoint[OF assms, of 0] or_disjoint[OF assms, of 1] or_disjoint[OF assms, of 2]
    or_disjoint[OF assms, of 3] by simp_all

lemma number_bytes:
  fixes a b c d :: int
  assumes "0 \<le> a" "a < 16" "0 \<le> b" "b < 16" "0 \<le> c" "c < 16" "0 \<le> d" "d < 16"
  shows "(a * 4096 + b * 256 + c * 16 + d) div 256 mod 64 = (a mod 4) * 16 + b"
    and "(a * 4096 + b * 256 + c * 16 + d) mod 256 = c * 16 + d"
    and "0 \<le> (a mod 4) * 16 + b" and "(a mod 4) * 16 + b < 64"
proof -
  have lo: "0 \<le> c * 16 + d" "c * 16 + d < 256"
    using assms by linarith+
  have split: "a * 4096 + b * 256 + c * 16 + d = (c * 16 + d) + (a * 16 + b) * 256"
    by (simp add: algebra_simps)
  have dv: "(a * 4096 + b * 256 + c * 16 + d) div 256 = a * 16 + b"
    unfolding split using lo by simp
  have m4: "0 \<le> a mod 4" "a mod 4 < 4"
    by simp_all
  show hi: "0 \<le> (a mod 4) * 16 + b" "(a mod 4) * 16 + b < 64"
    using m4 assms by linarith+
  have "a * 16 = (a div 4 * 4 + a mod 4) * 16"
    by simp
  also have "\<dots> = (a mod 4) * 16 + (a div 4) * 64"
    by (simp only: distrib_right mult.assoc)
  finally have "a * 16 + b = ((a mod 4) * 16 + b) + (a div 4) * 64"
    by simp
  then have "(a * 16 + b) mod 64 = ((a mod 4) * 16 + b) mod 64"
    by (metis mod_mult_self1)
  then show "(a * 4096 + b * 256 + c * 16 + d) div 256 mod 64 = (a mod 4) * 16 + b"
    unfolding dv using hi by (simp only: mod_pos_pos_trivial)
  have "(c * 16 + d + (a * 16 + b) * 256) mod 256 = (c * 16 + d) mod 256"
    by (rule mod_mult_self1)
  then show "(a * 4096 + b * 256 + c * 16 + d) mod 256 = c * 16 + d"
    unfolding split using lo by (simp only: mod_pos_pos_trivial)
qed

lemma py_upper_letters:
  "py_upper CHR ''P'' = CHR ''P''" "py_upper CHR ''C'' = CHR ''C''"
  "py_upper CHR ''B'' = CHR ''B''" "py_upper CHR ''U'' = CHR ''U''"
  "py_upper CHR ''X'' = CHR ''X''"
  by (simp_all add: py_upper_def)

lemma encode_dtc_wellformed:
  assumes l: "l = CHR ''P'' \<or> l = CHR ''C'' \<or> l = CHR ''B'' \<or> l = CHR ''U''"
    and h: "is_hex a" "is_hex b" "is_hex c" "is_hex d"
  shows "encode_dtc [l, a, b, c, d] =
           [spec_letter_bits l * 64 + (hex_digit a mod 4) * 16 + hex_digit b,
            hex_digit c * 16 + hex_digit d]"
proof -
  let ?n = "hex_digit a * 4096 + hex_digit b * 256 + hex_digit c * 16 + hex_digit d"
  note r = hex_digit_range[OF h(1)] hex_digit_range[OF h(2)] hex_digit_range[OF h(3)]
    hex_digit_range[OF h(4)]
  have hi: "drop_bit 8 ?n AND 0x3F = (hex_digit a mod 4) * 16 + hex_digit b"
    using r number_bytes(1)[of "hex_digit a" "hex_digit b" "hex_digit c" "hex_digit d"]
    by (simp add: and_63 drop_bit_8)
  have lo: "?n AND 0xFF = hex_digit c * 16 + hex_digit d"
    using r number_bytes(2)[of "hex_digit a" "hex_digit b" "hex_digit c" "hex_digit d"]
    by (simp add: and_255)
  have b: "0 \<le> (hex_digit a mod 4) * 16 + hex_digit b" "(hex_digit a mod 4) * 16 + hex_digit b < 64"
    using r number_bytes(3,4)[of "hex_digit a" "hex_digit b" "hex_digit c" "hex_digit d"]
    by simp_all
  show ?thesis
    using l by (auto simp: encode_dtc_def py_int16_hex4[OF h] py_upper_letters Let_def hi lo
        first_byte_or[OF b] spec_letter_bits_def)
qed


lemma encode_dtc_malformed:
  "length s \<noteq> 5 \<or> py_int16 (tl s) = None \<Longrightarrow> encode_dtc s = [0x00, 0x00]"
  by (auto simp: encode_dtc_def Let_def)

lemma encode_dtc_unknown_letter:
  assumes "py_upper l \<noteq> CHR ''P''" "py_upper l \<noteq> CHR ''C''" "py_upper l \<noteq> CHR ''B''"
    "py_upper l \<noteq> CHR ''U''"
  shows "encode_dtc [l, a, b, c, d] = encode_dtc [CHR ''P'', a, b, c, d]"
  using assms by (simp add: encode_dtc_def py_upper_letters Let_def)

subsection \<open>Frames and arbitration ids\<close>

lemma replicate_4: "replicate 4 x = [x, x, x, x]"
  by (simp add: numeral_eq_Suc)

lemma send_negative_response_pid:
  assumes "0 \<le> mode" "mode \<le> 255" "0 \<le> p" "p \<le> 255"
  shows "send_negative_response rid mode (Some p) =
           [\<lparr>arbitration_id = rid + 8, data = [0x7F, mode, 0x12, p, 0, 0, 0, 0]\<rparr>]"
  using assms by (simp add: send_negative_response_def can_Message_def Let_def replicate_4)

lemma send_negative_response_ids:
  "f \<in> set (send_negative_response rid mode pid) \<Longrightarrow> arbitration_id f = rid + 8"
  by (auto simp: send_negative_response_def can_Message_def Let_def split: option.splits if_splits)

lemma send_obd_response_ids:
  "f \<in> set (send_obd_response rid d) \<Longrightarrow>
     arbitration_id f = (if rid = 0x7DF then 0x7E8 else rid + 8)"
  by (auto simp: send_obd_response_def can_Message_def Let_def split: option.splits if_splits)

lemma send_obd2_response_ids:
  "f \<in> set (send_obd2_response pid d) \<Longrightarrow> arbitration_id f = 0x7E8"
  by (auto simp: send_obd2_response_def can_Message_def Let_def split: option.splits if_splits)

lemma physics_process_ids:
  "f \<in> set (physics_process_can_message st m) \<Longrightarrow> arbitration_id f = 0x7E8"
  by (auto simp: physics_process_can_message_def Let_def dest: send_obd2_response_ids split: option.splits if_splits)

lemma process_physical_ids:
  assumes "0x7E0 \<le> arbitration_id m" "arbitration_id m \<le> 0x7E7"
    and "f \<in> set (snd (process_can_message st m))"
  shows "arbitration_id f = arbitration_id m + 8"
  using assms
  by (auto simp: process_can_message_def Let_def handle_current_data_request_def
        handle_diagnostic_codes_request_def handle_clear_codes_request_def
        handle_vehicle_info_request_def
      dest!: send_obd_response_ids send_negative_response_ids
      split: option.splits if_splits pid_encoding.splits)

lemma current_data_bytes_unsupported:
  assumes "pid \<notin> {0x00, 0x0C, 0x0D, 0x05, 0x04, 0x11, 0x0F, 0x10, 0x2F, 0x42, 0x46, 0x0A, 0x0E,
                    0x14, 0x06, 0x07, 0x1F, 0x33, 0xA5, 0xA8}"
  shows "current_data_bytes st pid = Unsupported"
  using assms by (simp add: current_data_bytes_def)

subsection \<open>Bits of the supported PID mask\<close>

lemma bit_mask_step:
  "bit (mask_step r m x) n \<longleftrightarrow>
     bit m n \<or> (0 \<le> x - (r + 1) \<and> x - (r + 1) < 32 \<and> n = nat (31 - (x - (r + 1))))"
  by (auto simp: mask_step_def Let_def bit_or_iff bit_exp_iff)

lemma bit_foldl_mask_step:
  "bit (foldl (mask_step r) m xs) n \<longleftrightarrow>
     bit m n \<or> (\<exists>pid \<in> set xs. 0 \<le> pid - (r + 1) \<and> pid - (r + 1) < 32
                  \<and> n = nat (31 - (pid - (r + 1))))"
proof (induction xs arbitrary: m)
  case Nil
  then show ?case by simp
next
  case (Cons x xs)
  have "bit (foldl (mask_step r) m (x # xs)) n = bit (foldl (mask_step r) (mask_step r m x) xs) n"
    by simp
  also have "\<dots> \<longleftrightarrow> bit (mask_step r m x) n
      \<or> (\<exists>pid \<in> set xs. 0 \<le> pid - (r + 1) \<and> pid - (r + 1) < 32
                  \<and> n = nat (31 - (pid - (r + 1))))"
    by (rule Cons.IH)
  finally show ?case
    unfolding bit_mask_step by auto
qed

lemma mask_bit_iff:
  assumes "r + 1 \<le> pid" "pid \<le> r + 32"
  shows "bit (get_supported_pids_mask r) (nat (31 - (pid - r - 1))) \<longleftrightarrow>
           pid \<in> set (supported_pids r)"
proof -
  have "\<And>q. 0 \<le> q - (r + 1) \<Longrightarrow> q - (r + 1) < 32 \<Longrightarrow>
          nat (31 - (pid - r - 1)) = nat (31 - (q - (r + 1))) \<longleftrightarrow> q = pid"
    using assms by auto
  then show ?thesis
    using assms unfolding get_supported_pids_mask_def bit_foldl_mask_step
    by auto
qed

lemma mask_bit0:
  "r = 0x00 \<or> r = 0x20 \<or> r = 0x40 \<Longrightarrow> \<not> bit (get_supported_pids_mask r) 0"
  unfolding get_supported_pids_mask_def bit_foldl_mask_step
  by (auto simp: supported_pids_def)

subsection \<open>The read-codes payload\<close>



subsection \<open>The trouble code bookkeeping\<close>









subsection \<open>Encoders\<close>






subsection \<open>The physics step\<close>

lemma pi_gt_two: "2 < pi"
proof -
  have s: "0 \<le> sin (1 / 2 :: real)" "sin (1 / 2 :: real) \<le> 1 / 2"
    using sin_gt_zero_02 [of "1 / 2"] sin_x_le_x [of "1 / 2"] by simp_all
  then have "sin (1 / 2 :: real) * sin (1 / 2) \<le> (1 / 2) * (1 / 2)"
    by (intro mult_mono) simp_all
  then have "(sin (1 / 2 :: real))\<^sup>2 \<le> 1 / 4"
    by (simp add: power2_eq_square)
  moreover have "cos (1 :: real) = 1 - 2 * (sin (1 / 2))\<^sup>2"
    using cos_double_sin [of "1 / 2 :: real"] by simp
  ultimately have "0 < cos (1 :: real)" by simp
  have "pi / 2 \<noteq> 1"
  proof
    assume "pi / 2 = 1"
    then have "cos (1 :: real) = cos (pi / 2)" by simp
    then show False using \<open>0 < cos (1 :: real)\<close> by simp
  qed
  then show ?thesis
    using pi_ge_two by simp
qed

lemma sin_four_neg: "sin (4 :: real) < 0"
  using pi_gt_two pi_less_4 by (intro sin_lt_zero) simp_all

lemma update_gear_fields:
  "p_speed (update_gear st) = p_speed st" "p_rpm (update_gear st) = p_rpm st"
  by (simp_all add: update_gear_def Let_def)

lemma update_rpm_speed: "p_speed (update_rpm dt now st) = p_speed st"
  by (simp add: update_rpm_def Let_def)

lemma update_physics_speed_eq:
  "p_speed (update_physics dt now st)
     = max 0 (p_speed st / (36 / 10) + total_force st / p_mass st * dt) * (36 / 10)"
  by (simp add: update_physics_def update_gear_fields update_rpm_speed Let_def)

lemma update_physics_speed: "0 \<le> p_speed (update_physics dt now st)"
proof -
  have "0 \<le> max 0 (p_speed st / (36 / 10) + total_force st / p_mass st * dt) * (36 / 10)"
    by (rule mult_nonneg_nonneg) simp_all
  then show ?thesis
    by (simp only: update_physics_speed_eq)
qed

lemma target_rpm_range:
  assumes "0 \<le> p_throttle st" "p_throttle st \<le> 100"
  shows "800 \<le> target_rpm st" "target_rpm st \<le> 6500"
  using assms by (auto simp: target_rpm_def Let_def)

lemma relax_bounds:
  fixes r t a j :: real
  assumes "0 \<le> a" "a \<le> 1" "800 \<le> t" "t \<le> 6500" "- 1 \<le> j" "j \<le> 1"
  shows "min r 800 - 5 \<le> r + (t - r) * a + j * 5" "r + (t - r) * a + j * 5 \<le> max r 6500 + 5"
proof -
  have "(t - r) * a \<le> max 0 (t - r)" "min 0 (t - r) \<le> (t - r) * a"
  proof -
    show "(t - r) * a \<le> max 0 (t - r)"
    proof (cases "0 \<le> t - r")
      case True
      then have "(t - r) * a \<le> (t - r) * 1" using assms by (intro mult_left_mono) simp_all
      then show ?thesis using True by simp
    next
      case False
      then have "(t - r) * a \<le> 0" using assms by (simp add: mult_nonpos_nonneg)
      then show ?thesis by simp
    qed
    show "min 0 (t - r) \<le> (t - r) * a"
    proof (cases "0 \<le> t - r")
      case True
      then have "0 \<le> (t - r) * a" using assms by simp
      then show ?thesis by simp
    next
      case False
      then have "(t - r) * 1 \<le> (t - r) * a" using assms by (intro mult_left_mono_neg) simp_all
      then show ?thesis using False by simp
    qed
  qed
  then show "min r 800 - 5 \<le> r + (t - r) * a + j * 5" "r + (t - r) * a + j * 5 \<le> max r 6500 + 5"
    using assms by linarith+
qed

lemma update_rpm_bounds:
  assumes "0 \<le> dt" "dt \<le> 1 / 3" "0 \<le> p_throttle st" "p_throttle st \<le> 100"
  shows "min (p_rpm st) 800 - 5 \<le> p_rpm (update_rpm dt now st)"
    "p_rpm (update_rpm dt now st) \<le> max (p_rpm st) 6500 + 5"
  using relax_bounds [of "dt * 3" "target_rpm st" "sin (now * 10)" "p_rpm st"]
    target_rpm_range [OF assms(3,4)] assms(1,2)
  by (simp_all add: update_rpm_def Let_def mult.assoc)

lemma update_physics_rpm_bounds:
  assumes "0 \<le> dt" "dt \<le> 1 / 3" "0 \<le> p_throttle st" "p_throttle st \<le> 100"
  shows "min (p_rpm st) 800 - 5 \<le> p_rpm (update_physics dt now st)"
    "p_rpm (update_physics dt now st) \<le> max (p_rpm st) 6500 + 5"
proof -
  obtain st' where e: "p_rpm (update_physics dt now st) = p_rpm (update_rpm dt now st')"
    and f: "p_rpm st' = p_rpm st" "p_throttle st' = p_throttle st"
    by (simp add: update_physics_def update_gear_fields Let_def)
  show "min (p_rpm st) 800 - 5 \<le> p_rpm (update_physics dt now st)"
    "p_rpm (update_physics dt now st) \<le> max (p_rpm st) 6500 + 5"
    using update_rpm_bounds [of dt st' now] assms e f by simp_all
qed

subsection \<open>The transmitted read-codes frame\<close>








subsection \<open>Clamping encoders\<close>






section \<open>The claims\<close>

text \<open>
  C1. The specification says that a mode 0x01 request for an unsupported PID is answered
  with the frame \<open>[0x03, 0x7F, 0x01, 0x12, 0, 0, 0, 0]\<close>. The simulator instead sends
  \<open>[0x7F, 0x01, 0x12, PID, 0, 0, 0, 0]\<close>: for PID 0xFF on 0x7DF the data is
  \<open>[0x7F, 0x01, 0x12, 0xFF, 0, 0, 0, 0]\<close>.
\<close>

theorem unsupported_pid_frame_counterexample:
  "map data (snd (process_can_message initial_simulator
       \<lparr>arbitration_id = 0x7DF, data = [0x02, 0x01, 0xFF, 0, 0, 0, 0, 0]\<rparr>))
     = [[0x7F, 0x01, 0x12, 0xFF, 0, 0, 0, 0]]
   \<and> map data (snd (process_can_message initial_simulator
       \<lparr>arbitration_id = 0x7DF, data = [0x02, 0x01, 0xFF, 0, 0, 0, 0, 0]\<rparr>))
     \<noteq> [[0x03, 0x7F, 0x01, 0x12, 0, 0, 0, 0]]"
  by (simp add: process_can_message_def handle_current_data_request_def
        current_data_bytes_unsupported send_negative_response_pid)

text \<open>
  C1, amended. For every mode 0x01 request whose PID byte is none of the twenty PIDs the
  handler encodes, exactly one frame of 8 data bytes is transmitted; it carries the four
  bytes 0x7F, 0x01, 0x12 and the requested PID in a row, preceded by at most one byte and
  followed by zero padding only.
\<close>

theorem unsupported_pid_negative_response:
  assumes "3 \<le> length (data request)"
    and "0 \<le> data request ! 2" and "data request ! 2 \<le> 255"
    and "data request ! 2 \<notin> {0x00, 0x0C, 0x0D, 0x05, 0x04, 0x11, 0x0F, 0x10, 0x2F, 0x42, 0x46,
          0x0A, 0x0E, 0x14, 0x06, 0x07, 0x1F, 0x33, 0xA5, 0xA8}"
  shows "\<exists>f pre. handle_current_data_request st request = [f]
           \<and> length (data f) = 8 \<and> length pre \<le> 1
           \<and> data f = pre @ [0x7F, 0x01, 0x12, data request ! 2] @ replicate (4 - length pre) 0"
proof -
  have "handle_current_data_request st request =
          [\<lparr>arbitration_id = arbitration_id request + 8,
            data = [0x7F, 0x01, 0x12, data request ! 2, 0, 0, 0, 0]\<rparr>]"
    using assms
    by (simp add: handle_current_data_request_def current_data_bytes_unsupported
          send_negative_response_pid)
  then show ?thesis
    by (intro exI[of _ "\<lparr>arbitration_id = arbitration_id request + 8,
            data = [0x7F, 0x01, 0x12, data request ! 2, 0, 0, 0, 0]\<rparr>"] exI[of _ "[]"])
       (simp add: replicate_4)
qed

theorem unsupported_pid_negative_response_witness:
  "\<exists>f pre. handle_current_data_request initial_simulator
        \<lparr>arbitration_id = 0x7E0, data = [0x02, 0x01, 0xFF, 0, 0, 0, 0, 0]\<rparr> = [f]
           \<and> length (data f) = 8 \<and> length pre \<le> 1
           \<and> data f = pre @ [0x7F, 0x01, 0x12, 0xFF] @ replicate (4 - length pre) 0"
  using unsupported_pid_negative_response
      [of "\<lparr>arbitration_id = 0x7E0, data = [0x02, 0x01, 0xFF, 0, 0, 0, 0, 0]\<rparr>"
          initial_simulator]
  by simp

text \<open>
  C2. The specification says that every response is sent with id 0x7E8 for a request on
  0x7DF and with the request id plus 8 otherwise. The physics simulator answers a request
  on 0x7E1 with id 0x7E8.
\<close>

theorem response_id_counterexample:
  "map arbitration_id (physics_process_can_message initial_physics_state
       \<lparr>arbitration_id = 0x7E1, data = [0x02, 0x01, 0x0D, 0, 0, 0, 0, 0]\<rparr>) = [0x7E8]
   \<and> (0x7E8 :: int) \<noteq> 0x7E1 + 8"
  by (simp add: physics_process_can_message_def get_obd2_response_def send_obd2_response_def
      can_Message_def initial_physics_state_def python_int_def Let_def replicate_4)

text \<open>
  C2, amended. Every frame sent by \<open>_send_obd_response\<close> has id 0x7E8 when the request id
  is 0x7DF and the request id plus 8 otherwise; every frame the first simulator sends in
  answer to a request on 0x7E0 to 0x7E7, positive or negative, has the request id plus 8;
  every frame the physics simulator sends has id 0x7E8.
\<close>

theorem response_arbitration_ids:
  "(f \<in> set (send_obd_response rid d) \<longrightarrow>
      arbitration_id f = (if rid = 0x7DF then 0x7E8 else rid + 8))
   \<and> (0x7E0 \<le> arbitration_id m \<and> arbitration_id m \<le> 0x7E7
        \<and> g \<in> set (snd (process_can_message st m)) \<longrightarrow>
      arbitration_id g = arbitration_id m + 8)
   \<and> (h \<in> set (physics_process_can_message pst pm) \<longrightarrow> arbitration_id h = 0x7E8)"
  using send_obd_response_ids [of f rid d] process_physical_ids [of m g st]
    physics_process_ids [of h pst pm]
  by blast

theorem response_arbitration_ids_witness:
  "arbitration_id \<lparr>arbitration_id = 0x7E8, data = [0x01, 0x44, 0, 0, 0, 0, 0, 0]\<rparr> = 0x7E8
   \<and> arbitration_id \<lparr>arbitration_id = 0x7EA, data = [0x7F, 0x01, 0x12, 0xFF, 0, 0, 0, 0]\<rparr>
       = 0x7E2 + 8
   \<and> arbitration_id \<lparr>arbitration_id = 0x7E8, data = [0x03, 0x41, 0x0D, 0, 0, 0, 0, 0]\<rparr>
       = 0x7E8
   \<and> send_obd_response 0x7DF [0x44]
       = [\<lparr>arbitration_id = 0x7E8, data = [0x01, 0x44, 0, 0, 0, 0, 0, 0]\<rparr>]
   \<and> snd (process_can_message initial_simulator
         \<lparr>arbitration_id = 0x7E2, data = [0x02, 0x01, 0xFF, 0, 0, 0, 0, 0]\<rparr>)
       = [\<lparr>arbitration_id = 0x7EA, data = [0x7F, 0x01, 0x12, 0xFF, 0, 0, 0, 0]\<rparr>]
   \<and> physics_process_can_message initial_physics_state
         \<lparr>arbitration_id = 0x7E1, data = [0x02, 0x01, 0x0D, 0, 0, 0, 0, 0]\<rparr>
       = [\<lparr>arbitration_id = 0x7E8, data = [0x03, 0x41, 0x0D, 0, 0, 0, 0, 0]\<rparr>]"
proof -
  have a: "send_obd_response 0x7DF [0x44]
       = [\<lparr>arbitration_id = 0x7E8, data = [0x01, 0x44, 0, 0, 0, 0, 0, 0]\<rparr>]"
    by (simp add: send_obd_response_def can_Message_def Let_def numeral_eq_Suc)
  have b: "snd (process_can_message initial_simulator
         \<lparr>arbitration_id = 0x7E2, data = [0x02, 0x01, 0xFF, 0, 0, 0, 0, 0]\<rparr>)
       = [\<lparr>arbitration_id = 0x7EA, data = [0x7F, 0x01, 0x12, 0xFF, 0, 0, 0, 0]\<rparr>]"
    by (simp add: process_can_message_def handle_current_data_request_def
        current_data_bytes_unsupported send_negative_response_pid)
  have c: "physics_process_can_message initial_physics_state
         \<lparr>arbitration_id = 0x7E1, data = [0x02, 0x01, 0x0D, 0, 0, 0, 0, 0]\<rparr>
       = [\<lparr>arbitration_id = 0x7E8, data = [0x03, 0x41, 0x0D, 0, 0, 0, 0, 0]\<rparr>]"
    by (simp add: physics_process_can_message_def get_obd2_response_def send_obd2_response_def
      can_Message_def initial_physics_state_def python_int_def Let_def replicate_4)
  show ?thesis
    using response_arbitration_ids
      [of "\<lparr>arbitration_id = 0x7E8, data = [0x01, 0x44, 0, 0, 0, 0, 0, 0]\<rparr>" "0x7DF" "[0x44]"
          "\<lparr>arbitration_id = 0x7E2, data = [0x02, 0x01, 0xFF, 0, 0, 0, 0, 0]\<rparr>"
          "\<lparr>arbitration_id = 0x7EA, data = [0x7F, 0x01, 0x12, 0xFF, 0, 0, 0, 0]\<rparr>"
          initial_simulator
          "\<lparr>arbitration_id = 0x7E8, data = [0x03, 0x41, 0x0D, 0, 0, 0, 0, 0]\<rparr>"
          initial_physics_state
          "\<lparr>arbitration_id = 0x7E1, data = [0x02, 0x01, 0x0D, 0, 0, 0, 0, 0]\<rparr>"]
      a b c
    by simp
qed

text \<open>
  C3. The specification says that the request \<open>[0x02, 0x09, 0x02, ...]\<close> is answered with
  a payload that begins 0x49, 0x02, 0x01 and continues with characters of the VIN. The
  handler takes its sub-function from \<open>data[1]\<close>, which holds the mode 0x09 the request
  was dispatched on, so every mode 0x09 request, the VIN request among them, is answered
  with the negative response \<open>[0x7F, 0x09, 0x12, 0x09, 0, 0, 0, 0]\<close> on the request id
  plus 8, and the state is unchanged: the VIN branch is never reached.
\<close>

theorem vehicle_info_always_negative:
  assumes "arbitration_id message = 0x7DF
           \<or> (0x7E0 \<le> arbitration_id message \<and> arbitration_id message \<le> 0x7E7)"
    and "3 \<le> length (data message)"
    and "data message ! 1 = 0x09"
  shows "process_can_message st message
           = (st, [\<lparr>arbitration_id = arbitration_id message + 8,
                     data = [0x7F, 0x09, 0x12, 0x09, 0, 0, 0, 0]\<rparr>])"
  using assms
  by (auto simp: process_can_message_def handle_vehicle_info_request_def
        vehicle_info_response_data_def send_negative_response_pid)

theorem vin_request_negative_response:
  "process_can_message initial_simulator
       \<lparr>arbitration_id = 0x7DF, data = [0x02, 0x09, 0x02, 0, 0, 0, 0, 0]\<rparr>
     = (initial_simulator,
        [\<lparr>arbitration_id = 0x7E7, data = [0x7F, 0x09, 0x12, 0x09, 0, 0, 0, 0]\<rparr>])"
  using vehicle_info_always_negative
      [of "\<lparr>arbitration_id = 0x7DF, data = [0x02, 0x09, 0x02, 0, 0, 0, 0, 0]\<rparr>"
          initial_simulator]
  by simp




text \<open>
  C5. The specification says that bit 0 of a window's mask is set when a further window is
  supported. Bit 0 of the mask of window 0x00 is clear although window 0x20 has entries.
\<close>

theorem mask_continuation_counterexample:
  "\<not> bit (get_supported_pids_mask 0x00) 0 \<and> supported_pids 0x20 \<noteq> []"
  using mask_bit0 [of 0] by (simp add: supported_pids_def)

text \<open>
  C5, amended. For every window base and every PID from base + 1 to base + 32, bit
  31 - (pid - base - 1) of the returned mask is set if and only if the PID is listed in the
  table for that window. No list of the table holds the PID base + 32, so bit 0 of the masks
  of the windows 0x00, 0x20 and 0x40 is clear.
\<close>

theorem supported_pid_mask_bits:
  "(r + 1 \<le> pid \<and> pid \<le> r + 32 \<longrightarrow>
      (bit (get_supported_pids_mask r) (nat (31 - (pid - r - 1))) \<longleftrightarrow>
         pid \<in> set (supported_pids r)))
   \<and> (b = 0x00 \<or> b = 0x20 \<or> b = 0x40 \<longrightarrow> \<not> bit (get_supported_pids_mask b) 0)"
  using mask_bit_iff [of r pid] mask_bit0 [of b]
  by blast

theorem supported_pid_mask_bits_witness:
  "bit (get_supported_pids_mask 0x00) 20
   \<and> \<not> bit (get_supported_pids_mask 0x00) 30
   \<and> bit (get_supported_pids_mask 0x20) 17
   \<and> \<not> bit (get_supported_pids_mask 0x20) 0"
  using supported_pid_mask_bits [of "0x00" "0x0C" "0x20"]
    supported_pid_mask_bits [of "0x00" "0x02" "0x20"]
    supported_pid_mask_bits [of "0x20" "0x2F" "0x20"]
  by (simp add: supported_pids_def)

text \<open>
  C6. The specification says that every malformed code encodes to 0x0000. A code of five
  characters whose first character is not one of P, C, B, U is encoded like a P code:
  \<open>X0420\<close> gives 0x04, 0x20.
\<close>

theorem encode_dtc_counterexample:
  "encode_dtc ''X0420'' = [0x04, 0x20] \<and> encode_dtc ''X0420'' \<noteq> [0x00, 0x00]"
  by (simp add: encode_dtc_def py_upper_def py_int16_def py_isspace_def strip_sign_def
      strip_prefix16_def is_hex_def digit_value_def hex_value_def)

text \<open>
  C6, amended. For a code made of one of P, C, B, U and four hexadecimal digits, the two
  high bits of the first byte are 00, 01, 10, 11 for P, C, B, U, the next two bits are the
  second character modulo 4 (the character itself when it is 0 to 3), and the remaining
  twelve bits are characters 3 to 5. A code whose length is not 5, or whose last four
  characters \<open>int(_, 16)\<close> rejects, encodes to 0x00, 0x00. A five character code with
  another first character is encoded as if that character were P.
\<close>

theorem encode_dtc_layout:
  "((l = CHR ''P'' \<or> l = CHR ''C'' \<or> l = CHR ''B'' \<or> l = CHR ''U'')
      \<and> is_hex a \<and> is_hex b \<and> is_hex c \<and> is_hex d \<longrightarrow>
      encode_dtc [l, a, b, c, d] =
        [spec_letter_bits l * 64 + (hex_digit a mod 4) * 16 + hex_digit b,
         hex_digit c * 16 + hex_digit d])
   \<and> (length s \<noteq> 5 \<or> py_int16 (tl s) = None \<longrightarrow> encode_dtc s = [0x00, 0x00])
   \<and> (py_upper k \<noteq> CHR ''P'' \<and> py_upper k \<noteq> CHR ''C'' \<and> py_upper k \<noteq> CHR ''B''
        \<and> py_upper k \<noteq> CHR ''U'' \<longrightarrow>
      encode_dtc [k, a, b, c, d] = encode_dtc [CHR ''P'', a, b, c, d])"
  using encode_dtc_wellformed [of l a b c d] encode_dtc_malformed [of s]
    encode_dtc_unknown_letter [of k a b c d]
  by blast

theorem encode_dtc_layout_witness:
  "encode_dtc ''U0001'' = [0xC0, 0x01]
   \<and> encode_dtc ''P04'' = [0x00, 0x00]
   \<and> encode_dtc ''X0420'' = encode_dtc ''P0420''"
  using encode_dtc_layout [of "CHR ''U''" "CHR ''0''" "CHR ''0''" "CHR ''0''" "CHR ''1''"
      "''P04''" "CHR ''X''"]
    encode_dtc_layout [of "CHR ''U''" "CHR ''0''" "CHR ''4''" "CHR ''2''" "CHR ''0''"
      "''P04''" "CHR ''X''"]
  by (simp add: is_hex_def digit_value_def hex_digit_def spec_letter_bits_def py_upper_def)







text \<open>
  C9. The specification says that after every tick of the physics strategy the rpm lies in
  800 to 6500. The jitter \<open>sin(time.time() * 10) * 5\<close> is added after the target has
  been clamped: from the initial state (rpm 800, standing, throttle 0), a tick of 10 ms at
  a time where the sine is negative (here 0.4 s, the sine of 4) leaves the rpm below 800.
\<close>

theorem rpm_below_idle_counterexample:
  "p_rpm (update_physics (1 / 100) (2 / 5) initial_physics_state) < 800"
proof -
  have "p_rpm (update_physics (1 / 100) (2 / 5) initial_physics_state) = 800 + sin 4 * 5"
    by (simp add: update_physics_def update_rpm_def update_gear_def target_rpm_def
        total_force_def engine_force_def initial_physics_state_def Let_def)
  then show ?thesis
    using sin_four_neg by simp
qed

text \<open>
  C9, amended. After every physics update the speed is at least 0. The rpm itself is not
  clamped: for a throttle within 0 to 100 the target it moves towards lies in 800 to 6500,
  and after a tick of at most a third of a second the rpm is at least
  \<open>min(old rpm, 800) - 5\<close> and at most \<open>max(old rpm, 6500) + 5\<close>.
\<close>

theorem physics_speed_rpm:
  "0 \<le> p_speed (update_physics dt now st)
   \<and> (0 \<le> p_throttle st \<and> p_throttle st \<le> 100 \<longrightarrow>
        800 \<le> target_rpm st \<and> target_rpm st \<le> 6500)
   \<and> (0 \<le> dt \<and> dt \<le> 1 / 3 \<and> 0 \<le> p_throttle st \<and> p_throttle st \<le> 100 \<longrightarrow>
        min (p_rpm st) 800 - 5 \<le> p_rpm (update_physics dt now st)
        \<and> p_rpm (update_physics dt now st) \<le> max (p_rpm st) 6500 + 5)"
  using update_physics_speed [of dt now st] target_rpm_range [of st]
    update_physics_rpm_bounds [of dt st now]
  by blast

theorem physics_speed_rpm_witness:
  "0 \<le> p_speed (update_physics (1 / 100) (2 / 5) initial_physics_state)
   \<and> 795 \<le> p_rpm (update_physics (1 / 100) (2 / 5) initial_physics_state)
   \<and> p_rpm (update_physics (1 / 100) (2 / 5) initial_physics_state) \<le> 6505"
  using physics_speed_rpm [of "1 / 100" "2 / 5" initial_physics_state]
  by (simp add: initial_physics_state_def)

text \<open>
  C10. In the physics simulator, a request with a valid OBD arbitration id and at least
  three data bytes whose mode is not 0x01, or whose PID is none of 0x04, 0x05, 0x0C, 0x0D,
  0x11, 0x2F, 0x31, produces no frame at all.
\<close>

theorem physics_no_response:
  assumes "arbitration_id message = 0x7DF
           \<or> (0x7E0 \<le> arbitration_id message \<and> arbitration_id message \<le> 0x7E7)"
    and "3 \<le> length (data message)"
    and "data message ! 1 \<noteq> 0x01
         \<or> data message ! 2 \<notin> {0x04, 0x05, 0x0C, 0x0D, 0x11, 0x2F, 0x31}"
  shows "physics_process_can_message st message = []"
  using assms
  by (auto simp: physics_process_can_message_def get_obd2_response_def Let_def)

theorem physics_no_response_witness:
  "physics_process_can_message initial_physics_state
     \<lparr>arbitration_id = 0x7DF, data = [0x02, 0x01, 0x0F, 0, 0, 0, 0, 0]\<rparr> = []
   \<and> physics_process_can_message initial_physics_state
     \<lparr>arbitration_id = 0x7E3, data = [0x01, 0x03, 0x00, 0, 0, 0, 0, 0]\<rparr> = []"
  using physics_no_response
      [of "\<lparr>arbitration_id = 0x7DF, data = [0x02, 0x01, 0x0F, 0, 0, 0, 0, 0]\<rparr>"
          initial_physics_state]
    physics_no_response
      [of "\<lparr>arbitration_id = 0x7E3, data = [0x01, 0x03, 0x00, 0, 0, 0, 0, 0]\<rparr>"
          initial_physics_state]
  by simp

end
